theory Spec2Isabelle
  imports Complex_Main
begin

section \<open>The Listen Live player and its listening-session log\<close>

text \<open>
  A model of the audio player of the web frontend (the \<open>DOMContentLoaded\<close> callback that
  starts at the comment \<open>// Listen Live Audio Player\<close>) and of \<open>handleStreamCheck\<close>, the
  form action that shares the page with it.

  JavaScript runs one handler at a time.  A handler that reaches \<open>await\<close> on a network
  call stops there; what is left of it runs later, when the call has settled, and other
  handlers run in between.  So every handler is a function from the state to the effects it
  has and the next state, and the part of a handler after such an \<open>await\<close> is a handler of
  its own, started by an event of the run time (\<open>LogSettled\<close>, \<open>PlayResolved\<close>,
  \<open>PlayRejected\<close>, \<open>CheckSettled\<close>).  An \<open>await\<close> on a call that returned without
  suspending continues before any other handler runs, so there the handler stays in one piece.

  Times are the values of \<open>Date\<close> objects: integer milliseconds.  The quotient
  \<open>(endTime - listeningStartTime) / 1000\<close> is a rational; the only test on it,
  \<open>< 0.1\<close>, has the same answer on the doubles of the source as on the rationals,
  because the difference of two dates is an integer.
\<close>

subsection \<open>Strings\<close>

text \<open>\<open>String.prototype.trim\<close> on the characters a \<open>char\<close> can hold: tab, line feed,
  vertical tab, form feed, carriage return, space and no-break space.\<close>

definition is_ws :: "char \<Rightarrow> bool" where
  "is_ws c = (of_char c \<in> {9::nat, 10, 11, 12, 13, 32, 160})"

definition trim :: "string \<Rightarrow> string" where
  "trim s = rev (dropWhile is_ws (rev (dropWhile is_ws s)))"

text \<open>The truth value of a variable that holds \<open>null\<close> or a string.\<close>

fun truthy :: "string option \<Rightarrow> bool" where
  "truthy None = False"
| "truthy (Some u) = (u \<noteq> [])"

fun starts_with :: "string \<Rightarrow> string \<Rightarrow> bool" where
  "starts_with s [] = True"
| "starts_with [] (c # cs) = False"
| "starts_with (d # ds) (c # cs) = (d = c \<and> starts_with ds cs)"

text \<open>\<open>s.includes(sub)\<close>\<close>

fun includes_str :: "string \<Rightarrow> string \<Rightarrow> bool" where
  "includes_str [] sub = (sub = [])"
| "includes_str (d # ds) sub = (starts_with (d # ds) sub \<or> includes_str ds sub)"

text \<open>\<open>s.split('/').pop()\<close>\<close>

definition last_segment :: "string \<Rightarrow> string" where
  "last_segment s = rev (takeWhile (\<lambda>c. c \<noteq> CHR ''/'') (rev s))"

subsection \<open>Data\<close>

text \<open>The body of the POST to \<open>/listening/log\<close> (\<open>logData\<close>).\<close>

record log_data =
  stream_url :: string
  start_timestamp :: int
  end_timestamp :: int
  listening_time_seconds :: rat
  action_type :: string

datatype media_error =
  MEDIA_ERR_ABORTED | MEDIA_ERR_NETWORK | MEDIA_ERR_DECODE | MEDIA_ERR_SRC_NOT_SUPPORTED
  | MEDIA_ERR_OTHER

text \<open>What a handler does to the world outside its variables: requests, commands to the
  audio element \<open>streamPlayer\<close>, and writes to the page.\<close>

datatype effect =
    Fetch log_data bool  \<comment> \<open>POST the body to \<open>/listening/log\<close>; the flag is \<open>keepalive\<close>\<close>
  | CheckRequest string "string list" "int option"  \<comment> \<open>POST to \<open>/streams/check\<close>\<close>
  | SetSrc string  \<comment> \<open>\<open>streamPlayer.src = url\<close>\<close>
  | PlayCmd  \<comment> \<open>\<open>streamPlayer.play()\<close>\<close>
  | PauseCmd  \<comment> \<open>\<open>streamPlayer.pause()\<close>\<close>
  | SeekZero  \<comment> \<open>\<open>streamPlayer.currentTime = 0\<close>\<close>
  | SetVolume rat
  | SetMuted bool
  | ShowError string
  | HideError
  | UpdateStatus string
  | ShowPlayBtn  \<comment> \<open>play button shown, pause button hidden\<close>
  | ShowPauseBtn  \<comment> \<open>pause button shown, play button hidden\<close>
  | ResetTimeDisplay
  | UpdateTimeDisplay
  | Alert string

text \<open>The handler that awaits \<open>logListeningSession\<close>; \<open>Nobody\<close> for a call that is not
  awaited.\<close>

datatype caller = PauseBtn | StopBtn | EndedEv | ErrorEv | Nobody

text \<open>A suspended handler: after the log request, after \<open>streamPlayer.play()\<close>, and
  \<open>handleStreamCheck\<close> after its request, with the \<open>wasPlaying\<close>, \<open>currentSrc\<close>,
  \<open>currentVolume\<close> and \<open>wasMuted\<close> it holds.\<close>

datatype cont = AfterLog caller | AfterPlay | AfterCheck bool string rat bool

text \<open>What a handler reads of the world when it runs: the clock (\<open>new Date()\<close>) and the
  attributes of the audio element, which the page does not own. \<open>player_src\<close> is
  \<open>streamPlayer.src\<close> as the element reports it: the URL the browser resolved from what
  the page assigned, empty while nothing is assigned.\<close>

record env =
  clock :: int
  player_src :: string
  player_paused :: bool
  player_ended :: bool
  player_currentTime :: rat
  player_error :: "media_error option"
  player_volume :: rat
  player_muted :: bool
  play_promise :: bool  \<comment> \<open>\<open>streamPlayer.play()\<close> returns a promise\<close>

text \<open>The variables of the player. \<open>timeUpdateInterval\<close> says whether the interval is set;
  \<open>pending\<close> holds the suspended handlers. (\<open>isLoggingInProgress\<close> is declared in the
  source and never read or written.)\<close>

record player =
  currentPlayingUrl :: "string option"
  isPlayerInitialized :: bool
  listeningStartTime :: "int option"
  currentStreamUrl :: "string option"
  isPlaying :: bool
  timeUpdateInterval :: bool
  pauseTriggeredByButton :: bool
  pending :: "cont list"

definition init :: player where
  "init = \<lparr>currentPlayingUrl = None, isPlayerInitialized = False, listeningStartTime = None,
     currentStreamUrl = None, isPlaying = False, timeUpdateInterval = False,
     pauseTriggeredByButton = False, pending = []\<rparr>"

datatype event =
    PlayClick string  \<comment> \<open>the value of the URL input\<close>
  | PlayResolved
  | PlayRejected "string option"  \<comment> \<open>\<open>error.message\<close>\<close>
  | PauseClick
  | StopClick
  | LogSettled caller
  | VolumeInput rat
  | MuteClick
  | LoadStart
  | CanPlay
  | Playing
  | NativePause
  | Ended
  | Error
  | TimeUpdate
  | BeforeUnload
  | VisibilityChange bool  \<comment> \<open>\<open>document.hidden\<close>\<close>
  | CheckSubmit string "string list" "int option"
      \<comment> \<open>the URL input, the values of the checked test boxes, \<open>parseInt\<close> of the duration\<close>
  | CheckSettled bool string rat bool

subsection \<open>logListeningSession\<close>

text \<open>The result says whether the function stopped at \<open>await fetch\<close> (\<open>True\<close>) or
  returned. \<open>log_resume\<close> is what is left of it after the \<open>await\<close>: whatever the answer,
  only \<open>listeningStartTime = null\<close> touches the state.  (\<open>fetch\<close> reports a failure through
  its promise, so the \<open>catch\<close> of the \<open>sync\<close> branch never runs.)\<close>

definition logListeningSession ::
  "string \<Rightarrow> bool \<Rightarrow> env \<Rightarrow> player \<Rightarrow> effect list \<times> player \<times> bool" where
  "logListeningSession actionType sync n s =
     (case listeningStartTime s of
        None \<Rightarrow> ([], s, False)
      | Some t0 \<Rightarrow>
          if \<not> truthy (currentStreamUrl s) then ([], s, False)
          else
            let endTime = clock n;
                listeningTimeSeconds = (of_int (endTime - t0) :: rat) / 1000
            in if listeningTimeSeconds < 1 / 10
               then ([], s\<lparr>listeningStartTime := None\<rparr>, False)
               else
                 let logData = \<lparr>stream_url = the (currentStreamUrl s), start_timestamp = t0,
                       end_timestamp = endTime, listening_time_seconds = listeningTimeSeconds,
                       action_type = actionType\<rparr>
                 in if sync
                    then ([Fetch logData True], s\<lparr>listeningStartTime := None\<rparr>, False)
                    else ([Fetch logData False], s, True))"

definition log_resume :: "player \<Rightarrow> player" where
  "log_resume s = s\<lparr>listeningStartTime := None\<rparr>"

text \<open>A call that is not awaited: the caller goes on at once, and the rest of the function
  is left pending.\<close>

definition log_unawaited :: "string \<Rightarrow> bool \<Rightarrow> env \<Rightarrow> player \<Rightarrow> effect list \<times> player" where
  "log_unawaited actionType sync n s =
     (case logListeningSession actionType sync n s of
        (out, s', awaiting) \<Rightarrow>
          (out, if awaiting then s'\<lparr>pending := pending s' @ [AfterLog Nobody]\<rparr> else s'))"

text \<open>\<open>await logListeningSession(...)\<close> followed by \<open>rest\<close>: when the function stopped at
  its request the caller stops too, otherwise \<open>rest\<close> runs.\<close>

definition log_awaited ::
  "caller \<Rightarrow> (player \<Rightarrow> effect list \<times> player) \<Rightarrow> string \<Rightarrow> env \<Rightarrow> player \<Rightarrow> effect list \<times> player" where
  "log_awaited who rest actionType n s =
     (case logListeningSession actionType False n s of
        (out, s', awaiting) \<Rightarrow>
          if awaiting then (out, s'\<lparr>pending := pending s' @ [AfterLog who]\<rparr>)
          else (case rest s' of (out', s'') \<Rightarrow> (out @ out', s'')))"

subsection \<open>The handlers\<close>

definition showError :: "string \<Rightarrow> effect list" where
  "showError message = [ShowError message, UpdateStatus ''Error'']"

definition play_click :: "string \<Rightarrow> env \<Rightarrow> player \<Rightarrow> effect list \<times> player" where
  "play_click input n s =
     (let url = trim input in
      if url = [] then (showError ''Please enter a stream URL first'', s)
      else
        let needsNewSource = (\<not> truthy (currentPlayingUrl s) \<or> currentPlayingUrl s \<noteq> Some url);
            s1 = (if needsNewSource
                  then s\<lparr>currentPlayingUrl := Some url, isPlayerInitialized := True\<rparr>
                  else s);
            s2 = (if listeningStartTime s1 = None
                  then s1\<lparr>listeningStartTime := Some (clock n), currentStreamUrl := Some url\<rparr>
                  else s1)
        in ([HideError] @ (if needsNewSource then [SetSrc url] else []) @ [PlayCmd],
            if play_promise n then s2\<lparr>pending := pending s2 @ [AfterPlay]\<rparr> else s2))"

definition play_resolved :: "player \<Rightarrow> effect list \<times> player" where
  "play_resolved s =
     ([ShowPauseBtn, UpdateStatus ''Playing''], s\<lparr>isPlaying := True, timeUpdateInterval := True\<rparr>)"

definition play_rejected :: "string option \<Rightarrow> player \<Rightarrow> effect list \<times> player" where
  "play_rejected message s =
     (showError (''Unable to play stream: '' @ (if truthy message then the message else ''Unknown error''))
        @ [UpdateStatus ''Error''],
      s\<lparr>listeningStartTime := None\<rparr>)"

definition pause_rest :: "player \<Rightarrow> effect list \<times> player" where
  "pause_rest s =
     ([PauseCmd, ShowPlayBtn, UpdateStatus ''Paused''],
      s\<lparr>isPlaying := False, timeUpdateInterval := False\<rparr>)"

definition pause_click :: "env \<Rightarrow> player \<Rightarrow> effect list \<times> player" where
  "pause_click n s =
     log_awaited PauseBtn pause_rest ''pause'' n (s\<lparr>pauseTriggeredByButton := True\<rparr>)"

definition stop_rest :: "player \<Rightarrow> effect list \<times> player" where
  "stop_rest s =
     ([PauseCmd, SeekZero, ShowPlayBtn, UpdateStatus ''Stopped'', ResetTimeDisplay],
      s\<lparr>isPlaying := False, currentPlayingUrl := None, currentStreamUrl := None,
        isPlayerInitialized := False, timeUpdateInterval := False\<rparr>)"

definition stop_click :: "env \<Rightarrow> player \<Rightarrow> effect list \<times> player" where
  "stop_click n s = log_awaited StopBtn stop_rest ''stop'' n s"

definition playing :: "env \<Rightarrow> player \<Rightarrow> effect list \<times> player" where
  "playing n s =
     (let s1 = s\<lparr>isPlaying := True\<rparr>;
          s2 = (if player_src n \<noteq> []
                then s1\<lparr>currentPlayingUrl := Some (player_src n),
                       currentStreamUrl := Some (player_src n), isPlayerInitialized := True\<rparr>
                else s1);
          s3 = (if listeningStartTime s2 = None \<and> truthy (currentStreamUrl s2)
                then s2\<lparr>listeningStartTime := Some (clock n)\<rparr>
                else s2)
      in ([ShowPauseBtn, UpdateStatus ''Playing''], s3))"

definition native_pause :: "env \<Rightarrow> player \<Rightarrow> effect list \<times> player" where
  "native_pause n s =
     (case (if \<not> pauseTriggeredByButton s \<and> listeningStartTime s \<noteq> None
            then log_unawaited ''pause'' False n s else ([], s)) of
        (out, s1) \<Rightarrow>
          (out @ [ShowPlayBtn,
                  UpdateStatus (if player_currentTime n = 0 then ''Stopped'' else ''Paused'')],
           s1\<lparr>pauseTriggeredByButton := False, isPlaying := False\<rparr>))"

definition ended_rest :: "player \<Rightarrow> effect list \<times> player" where
  "ended_rest s =
     ([ShowPlayBtn, UpdateStatus ''Ended'', ResetTimeDisplay],
      s\<lparr>isPlaying := False, currentStreamUrl := None, timeUpdateInterval := False\<rparr>)"

definition ended_event :: "env \<Rightarrow> player \<Rightarrow> effect list \<times> player" where
  "ended_event n s = log_awaited EndedEv ended_rest ''stop'' n s"

definition error_message :: "media_error option \<Rightarrow> string" where
  "error_message e =
     (case e of
        None \<Rightarrow> ''Unable to play stream''
      | Some MEDIA_ERR_ABORTED \<Rightarrow> ''Playback aborted''
      | Some MEDIA_ERR_NETWORK \<Rightarrow> ''Network error - check your connection''
      | Some MEDIA_ERR_DECODE \<Rightarrow> ''Stream format not supported or corrupted''
      | Some MEDIA_ERR_SRC_NOT_SUPPORTED \<Rightarrow> ''Stream format not supported by browser''
      | Some MEDIA_ERR_OTHER \<Rightarrow> ''Unknown error occurred'')"

definition error_rest :: "env \<Rightarrow> player \<Rightarrow> effect list \<times> player" where
  "error_rest n s =
     ([ShowPlayBtn] @ showError (error_message (player_error n)) @ [UpdateStatus ''Error''],
      s\<lparr>isPlaying := False, currentStreamUrl := None, timeUpdateInterval := False\<rparr>)"

definition error_event :: "env \<Rightarrow> player \<Rightarrow> effect list \<times> player" where
  "error_event n s =
     (if listeningStartTime s \<noteq> None then log_awaited ErrorEv (error_rest n) ''stop'' n s
      else error_rest n s)"

definition before_unload :: "env \<Rightarrow> player \<Rightarrow> effect list \<times> player" where
  "before_unload n s =
     (if listeningStartTime s \<noteq> None \<and> truthy (currentStreamUrl s)
      then log_unawaited ''stop'' True n s else ([], s))"

definition visibility_change :: "bool \<Rightarrow> env \<Rightarrow> player \<Rightarrow> effect list \<times> player" where
  "visibility_change hidden n s =
     (if hidden \<and> listeningStartTime s \<noteq> None \<and> truthy (currentStreamUrl s)
      then log_unawaited ''pause'' True n s else ([], s))"

text \<open>The handler that resumes after the log request: the rest of \<open>logListeningSession\<close>,
  then the rest of the handler that awaited it.\<close>

definition log_settled :: "caller \<Rightarrow> env \<Rightarrow> player \<Rightarrow> effect list \<times> player" where
  "log_settled who n s =
     (let s1 = log_resume s in
      case who of
        PauseBtn \<Rightarrow> pause_rest s1
      | StopBtn \<Rightarrow> stop_rest s1
      | EndedEv \<Rightarrow> ended_rest s1
      | ErrorEv \<Rightarrow> error_rest n s1
      | Nobody \<Rightarrow> ([], s1))"

subsection \<open>handleStreamCheck\<close>

text \<open>The form action. Its variables are its own: it reads the audio element, and in its
  \<open>finally\<close> block it may set the element's volume and mute state and call its \<open>play()\<close>.
  What it writes to the form and the result sections of the page is left out, and the
  elements it looks up are taken to be on the page.\<close>

definition handleStreamCheck ::
  "string \<Rightarrow> string list \<Rightarrow> int option \<Rightarrow> env \<Rightarrow> player \<Rightarrow> effect list \<times> player" where
  "handleStreamCheck input tests duration n s =
     (let wasPlaying = (\<not> player_paused n \<and> \<not> player_ended n);
          currentSrc = player_src n;
          url = trim input
      in if url = [] then ([Alert ''Please enter a stream URL''], s)
         else if ''ad_detection'' \<in> set tests \<and>
                 \<not> (case duration of None \<Rightarrow> False | Some d \<Rightarrow> d \<noteq> 0 \<and> 10 \<le> d \<and> d \<le> 300)
         then ([Alert ''Ad detection duration must be between 10 and 300 seconds.''], s)
         else if tests = [] then ([Alert ''Please select at least one test to run.''], s)
         else ([CheckRequest url tests (if ''ad_detection'' \<in> set tests then duration else None)],
               s\<lparr>pending := pending s @
                   [AfterCheck wasPlaying currentSrc (player_volume n) (player_muted n)]\<rparr>))"

definition check_settled ::
  "bool \<Rightarrow> string \<Rightarrow> rat \<Rightarrow> bool \<Rightarrow> env \<Rightarrow> player \<Rightarrow> effect list \<times> player" where
  "check_settled wasPlaying currentSrc currentVolume wasMuted n s =
     (if wasPlaying \<and> currentSrc \<noteq> []
      then
        let srcMatches = (player_src n = currentSrc \<or> player_src n = [] \<or>
                          includes_str (player_src n) (last_segment currentSrc))
        in if srcMatches
           then ([SetVolume currentVolume, SetMuted wasMuted] @
                 (if player_paused n \<and> wasPlaying then [PlayCmd] else []), s)
           else ([], s)
      else ([], s))"

subsection \<open>The event loop\<close>

text \<open>A suspended handler resumes only while it is pending, and then leaves the list.\<close>

definition resume :: "cont \<Rightarrow> (player \<Rightarrow> effect list \<times> player) \<Rightarrow> player \<Rightarrow> effect list \<times> player" where
  "resume c h s =
     (if c \<in> set (pending s) then h (s\<lparr>pending := remove1 c (pending s)\<rparr>) else ([], s))"

fun step :: "env \<Rightarrow> event \<Rightarrow> player \<Rightarrow> effect list \<times> player" where
  "step n (PlayClick input) s = play_click input n s"
| "step n PlayResolved s = resume AfterPlay play_resolved s"
| "step n (PlayRejected message) s = resume AfterPlay (play_rejected message) s"
| "step n PauseClick s = pause_click n s"
| "step n StopClick s = stop_click n s"
| "step n (LogSettled who) s = resume (AfterLog who) (log_settled who n) s"
| "step n (VolumeInput v) s = ([SetVolume v], s)"
| "step n MuteClick s = ([SetMuted (\<not> player_muted n)], s)"
| "step n LoadStart s = ([UpdateStatus ''Loading...'', HideError], s)"
| "step n CanPlay s = ([UpdateStatus ''Ready''], s)"
| "step n Playing s = playing n s"
| "step n NativePause s = native_pause n s"
| "step n Ended s = ended_event n s"
| "step n Error s = error_event n s"
| "step n TimeUpdate s = (if isPlaying s then [UpdateTimeDisplay] else [], s)"
| "step n BeforeUnload s = before_unload n s"
| "step n (VisibilityChange hidden) s = visibility_change hidden n s"
| "step n (CheckSubmit input tests duration) s = handleStreamCheck input tests duration n s"
| "step n (CheckSettled w c v m) s = resume (AfterCheck w c v m) (check_settled w c v m n) s"

fun run :: "(env \<times> event) list \<Rightarrow> player \<Rightarrow> effect list \<times> player" where
  "run [] s = ([], s)"
| "run ((n, e) # es) s =
     (case step n e s of (out, s') \<Rightarrow> (case run es s' of (out', s'') \<Rightarrow> (out @ out', s'')))"

text \<open>The session records handed to the network, in order, each with its \<open>keepalive\<close>
  flag.\<close>

fun deliveries :: "effect list \<Rightarrow> (log_data \<times> bool) list" where
  "deliveries [] = []"
| "deliveries (Fetch d k # xs) = (d, k) # deliveries xs"
| "deliveries (x # xs) = deliveries xs"

text \<open>A handler run at clock time \<open>t\<close>, the audio element playing and reporting the
  source \<open>u\<close>; \<open>at_time\<close> is the same on the stream \<open>http://x/stream.mp3\<close>, an absolute
  URL that the browser reports as it was assigned.\<close>

definition on_source :: "string \<Rightarrow> int \<Rightarrow> env" where
  "on_source u t = \<lparr>clock = t, player_src = u, player_paused = False, player_ended = False,
     player_currentTime = 1, player_error = None, player_volume = 1, player_muted = False,
     play_promise = True\<rparr>"

definition at_time :: "int \<Rightarrow> env" where
  "at_time t = on_source ''http://x/stream.mp3'' t"

text \<open>The body \<open>logListeningSession\<close> posts for a session on \<open>u\<close> from \<open>t0\<close> to \<open>t\<close>.\<close>

abbreviation session_record :: "string \<Rightarrow> int \<Rightarrow> int \<Rightarrow> string \<Rightarrow> log_data" where
  "session_record u t0 t a \<equiv>
     \<lparr>stream_url = u, start_timestamp = t0, end_timestamp = t,
      listening_time_seconds = of_int (t - t0) / 1000, action_type = a\<rparr>"

text \<open>A player in the middle of a session: play was clicked at time 0 on a fresh page, the
  promise of \<open>play()\<close> resolved and the element reported \<open>playing\<close>.\<close>

definition listening :: player where
  "listening = snd (run [(at_time 0, PlayClick ''http://x/stream.mp3''), (at_time 10, PlayResolved),
      (at_time 200, Playing)] init)"

text \<open>A player whose first play click, at time 0, is still waiting for its \<open>play()\<close>
  promise.\<close>

definition loading :: player where
  "loading = snd (run [(at_time 0, PlayClick ''http://x/stream.mp3'')] init)"

section \<open>Basic facts\<close>

lemma listening_eq:
  "listening = \<lparr>currentPlayingUrl = Some ''http://x/stream.mp3'', isPlayerInitialized = True,
     listeningStartTime = Some 0, currentStreamUrl = Some ''http://x/stream.mp3'',
     isPlaying = True, timeUpdateInterval = True, pauseTriggeredByButton = False,
     pending = []\<rparr>"
  by code_simp

lemma loading_eq:
  "loading = \<lparr>currentPlayingUrl = Some ''http://x/stream.mp3'', isPlayerInitialized = True,
     listeningStartTime = Some 0, currentStreamUrl = Some ''http://x/stream.mp3'',
     isPlaying = False, timeUpdateInterval = False, pauseTriggeredByButton = False,
     pending = [AfterPlay]\<rparr>"
  by code_simp

lemma clock_at_time: "clock (at_time t) = t"
  by (simp add: at_time_def on_source_def)

lemma clock_on_source: "clock (on_source u t) = t"
  by (simp add: on_source_def)

lemma trim_url: "trim ''http://x/stream.mp3'' = ''http://x/stream.mp3''"
  by (simp add: trim_def is_ws_def)

lemma trim_blank: "\<forall>c\<in>set input. is_ws c \<Longrightarrow> trim input = []"
  by (auto simp: trim_def dest: set_dropWhileD)

lemma deliveries_append: "deliveries (xs @ ys) = deliveries xs @ deliveries ys"
  by (induction xs rule: deliveries.induct) simp_all

lemma run_cons:
  "run ((n, e) # es) s =
     (fst (step n e s) @ fst (run es (snd (step n e s))), snd (run es (snd (step n e s))))"
  by (simp split: prod.splits)

declare run.simps(2) [simp del]

lemma run_append:
  "run (xs @ ys) s = (fst (run xs s) @ fst (run ys (snd (run xs s))), snd (run ys (snd (run xs s))))"
proof (induction xs arbitrary: s)
  case Nil
  show ?case by simp
next
  case (Cons a xs)
  obtain n e where a: "a = (n, e)" by (cases a)
  show ?case by (simp add: a run_cons Cons.IH)
qed

text \<open>What \<open>logListeningSession\<close> does when a session is tracked.\<close>

lemma log_active:
  assumes "listeningStartTime s = Some t0" and "currentStreamUrl s = Some u" and "u \<noteq> []"
  shows "logListeningSession a sync n s =
     (if 100 \<le> clock n - t0
      then ([Fetch (session_record u t0 (clock n) a) sync],
            if sync then s\<lparr>listeningStartTime := None\<rparr> else s, \<not> sync)
      else ([], s\<lparr>listeningStartTime := None\<rparr>, False))"
  using assms by (auto simp: logListeningSession_def Let_def)

lemma pause_click_active:
  assumes "listeningStartTime s = Some t0" and "currentStreamUrl s = Some u" and "u \<noteq> []"
  shows "pause_click n s =
     (if 100 \<le> clock n - t0
      then ([Fetch (session_record u t0 (clock n) ''pause'') False],
            s\<lparr>pauseTriggeredByButton := True, pending := pending s @ [AfterLog PauseBtn]\<rparr>)
      else ([PauseCmd, ShowPlayBtn, UpdateStatus ''Paused''],
            s\<lparr>pauseTriggeredByButton := True, listeningStartTime := None, isPlaying := False,
              timeUpdateInterval := False\<rparr>))"
proof -
  have "logListeningSession ''pause'' False n (s\<lparr>pauseTriggeredByButton := True\<rparr>) =
     (if 100 \<le> clock n - t0
      then ([Fetch (session_record u t0 (clock n) ''pause'') False],
            s\<lparr>pauseTriggeredByButton := True\<rparr>, True)
      else ([], s\<lparr>pauseTriggeredByButton := True, listeningStartTime := None\<rparr>, False))"
    using assms log_active [of "s\<lparr>pauseTriggeredByButton := True\<rparr>" t0 u "''pause''" False n]
    by simp
  then show ?thesis
    by (simp add: pause_click_def log_awaited_def pause_rest_def)
qed

lemma stop_click_active:
  assumes "listeningStartTime s = Some t0" and "currentStreamUrl s = Some u" and "u \<noteq> []"
    and "100 \<le> clock n - t0"
  shows "stop_click n s =
     ([Fetch (session_record u t0 (clock n) ''stop'') False],
      s\<lparr>pending := pending s @ [AfterLog StopBtn]\<rparr>)"
  using assms by (simp add: stop_click_def log_awaited_def log_active)

text \<open>Once no session is tracked, \<open>pause\<close> events of the audio element post nothing.\<close>

lemma native_pause_idle:
  "listeningStartTime s = None \<Longrightarrow>
     deliveries (fst (step n NativePause s)) = [] \<and>
     listeningStartTime (snd (step n NativePause s)) = None"
  by (simp add: native_pause_def)

lemma native_pauses_idle:
  "listeningStartTime s = None \<Longrightarrow>
     deliveries (fst (run (map (\<lambda>m. (m, NativePause)) ms) s)) = [] \<and>
     listeningStartTime (snd (run (map (\<lambda>m. (m, NativePause)) ms) s)) = None"
proof (induction ms arbitrary: s)
  case Nil
  then show ?case by simp
next
  case (Cons m ms)
  from native_pause_idle [OF Cons.prems, of m]
  have quiet: "deliveries (fst (step m NativePause s)) = []"
    and idle: "listeningStartTime (snd (step m NativePause s)) = None" by simp_all
  from Cons.IH [OF idle] quiet show ?case
    by (simp only: list.map run_cons fst_conv snd_conv deliveries_append) simp
qed

text \<open>A \<open>pause\<close> event that finds the button's flag set only clears it; the end of a log
  request posts nothing and closes the session.\<close>

lemma native_pause_flagged:
  "pauseTriggeredByButton s \<Longrightarrow>
     native_pause n s =
       ([ShowPlayBtn, UpdateStatus (if player_currentTime n = 0 then ''Stopped'' else ''Paused'')],
        s\<lparr>pauseTriggeredByButton := False, isPlaying := False\<rparr>)"
  by (simp add: native_pause_def)

lemma log_settled_closes:
  "deliveries (fst (step n (LogSettled who) s)) = [] \<and>
   (AfterLog who \<in> set (pending s) \<or> listeningStartTime s = None \<longrightarrow>
      listeningStartTime (snd (step n (LogSettled who) s)) = None)"
  by (cases who)
     (simp_all add: resume_def log_settled_def log_resume_def pause_rest_def stop_rest_def
        ended_rest_def error_rest_def showError_def)

text \<open>The play click, its promise and the \<open>playing\<close> event, one step at a time.\<close>

lemma play_click_starts:
  assumes "listeningStartTime s = None" and "trim input \<noteq> []"
  shows "listeningStartTime (snd (step n (PlayClick input) s)) = Some (clock n)"
    and "currentStreamUrl (snd (step n (PlayClick input) s)) = Some (trim input)"
  using assms by (simp_all add: play_click_def Let_def)

lemma play_click_quiet: "deliveries (fst (step n (PlayClick input) s)) = []"
  by (simp add: play_click_def Let_def showError_def)

lemma play_click_pending:
  "trim input \<noteq> [] \<Longrightarrow> play_promise n \<Longrightarrow> AfterPlay \<in> set (pending (snd (step n (PlayClick input) s)))"
  by (simp add: play_click_def Let_def)

lemma play_rejected_discards:
  assumes "AfterPlay \<in> set (pending s)"
  shows "listeningStartTime (snd (step n (PlayRejected m) s)) = None"
    and "deliveries (fst (step n (PlayRejected m) s)) = []"
  using assms by (simp_all add: resume_def play_rejected_def showError_def)

lemma play_resolved_keeps:
  "listeningStartTime (snd (step n PlayResolved s)) = listeningStartTime s"
  by (simp add: resume_def play_resolved_def)

lemma playing_keeps:
  "listeningStartTime s = Some t \<Longrightarrow> listeningStartTime (snd (step n Playing s)) = Some t"
  by (simp add: playing_def Let_def)

text \<open>The \<open>error\<close> event during a tracked session logs it and leaves a waiting \<open>play()\<close>
  promise waiting.\<close>

lemma error_event_active:
  assumes "listeningStartTime s = Some t0" and "currentStreamUrl s = Some u" and "u \<noteq> []"
  shows "deliveries (fst (step n Error s)) =
           (if 100 \<le> clock n - t0 then [(session_record u t0 (clock n) ''stop'', False)] else [])"
    and "AfterPlay \<in> set (pending s) \<Longrightarrow> AfterPlay \<in> set (pending (snd (step n Error s)))"
  using assms
  by (simp_all add: error_event_def log_awaited_def log_active error_rest_def showError_def)

section \<open>The pause button and the element's pause events\<close>

text \<open>
  What the flag achieves. A tracked session on source \<open>u\<close> started at \<open>t0\<close>, the pause
  button clicked at \<open>clock n\<close>, and any number of \<open>pause\<close> events of the element after the
  click, of which at most one arrives before the handler has run to its end (before its log
  request has settled): the session's record is posted once (not at all when the session is
  below the threshold) and the session is closed. The first \<open>pause\<close> event finds
  \<open>pauseTriggeredByButton\<close> set, those after the handler's end find \<open>listeningStartTime\<close>
  cleared.
\<close>

lemma pause_button_logs_once:
  assumes "listeningStartTime s = Some t0" and "currentStreamUrl s = Some u" and "u \<noteq> []"
    and "length pre \<le> 1"
  shows "deliveries (fst (run ((n, PauseClick) # map (\<lambda>m. (m, NativePause)) pre @
            (n', LogSettled PauseBtn) # map (\<lambda>m. (m, NativePause)) post) s)) =
         (if 100 \<le> clock n - t0
          then [(session_record u t0 (clock n) ''pause'', False)]
          else []) \<and>
         listeningStartTime (snd (run ((n, PauseClick) # map (\<lambda>m. (m, NativePause)) pre @
            (n', LogSettled PauseBtn) # map (\<lambda>m. (m, NativePause)) post) s)) = None"
proof -
  let ?s1 = "snd (step n PauseClick s)"
  let ?pre = "map (\<lambda>m. (m, NativePause)) pre"
  let ?post = "map (\<lambda>m. (m, NativePause)) post"
  let ?s2 = "snd (run ?pre ?s1)"
  let ?s3 = "snd (step n' (LogSettled PauseBtn) ?s2)"
  note click = pause_click_active [OF assms(1-3), of n]
  have posted: "deliveries (fst (step n PauseClick s)) =
      (if 100 \<le> clock n - t0 then [(session_record u t0 (clock n) ''pause'', False)] else [])"
    by (simp add: click)
  have flag: "pauseTriggeredByButton ?s1"
    by (simp add: click)
  have s1: "AfterLog PauseBtn \<in> set (pending ?s1) \<or> listeningStartTime ?s1 = None"
    by (simp add: click)
  have early: "deliveries (fst (run ?pre ?s1)) = [] \<and>
      (AfterLog PauseBtn \<in> set (pending ?s2) \<or> listeningStartTime ?s2 = None)"
  proof (cases pre)
    case Nil
    with s1 show ?thesis by simp
  next
    case (Cons m ms)
    with assms(4) have pre: "pre = [m]" by simp
    from s1 flag show ?thesis
      by (simp add: pre run_cons native_pause_flagged)
  qed
  have settle: "deliveries (fst (step n' (LogSettled PauseBtn) ?s2)) = []"
    by (rule conjunct1 [OF log_settled_closes])
  have idle: "listeningStartTime ?s3 = None"
    by (rule mp [OF conjunct2 [OF log_settled_closes] conjunct2 [OF early]])
  have split: "run ((n, PauseClick) # ?pre @ (n', LogSettled PauseBtn) # ?post) s =
      (fst (step n PauseClick s) @ fst (run ?pre ?s1) @
         fst (step n' (LogSettled PauseBtn) ?s2) @ fst (run ?post ?s3),
       snd (run ?post ?s3))"
    by (simp only: run_cons run_append fst_conv snd_conv)
  from native_pauses_idle [OF idle, of post] posted early settle show ?thesis
    by (simp only: split fst_conv snd_conv deliveries_append) simp
qed

text \<open>
  C1: a session closed by the pause button posts exactly one record, however many \<open>pause\<close>
  events of the element follow. The code breaks this. The button's handler posts the record
  and then waits for the request before it clears \<open>listeningStartTime\<close>; until then the
  session is still tracked and only \<open>pauseTriggeredByButton\<close> keeps the \<open>pause\<close> listener
  from logging. The first \<open>pause\<close> event clears that flag, so a second one that arrives
  while the request is open posts the same session again. Here: the session of
  \<open>listening\<close> (tracked from 0), the pause button at 10.0 s, \<open>pause\<close> events at 10.1 s
  and 10.2 s, the request settled at 10.3 s. Two records are posted for the one session,
  both starting at 0.
\<close>

theorem native_pauses_before_settle_log_twice:
  "deliveries (fst (run [(at_time 10000, PauseClick), (at_time 10100, NativePause),
       (at_time 10200, NativePause), (at_time 10300, LogSettled PauseBtn)] listening)) =
     [(session_record ''http://x/stream.mp3'' 0 10000 ''pause'', False),
      (session_record ''http://x/stream.mp3'' 0 10200 ''pause'', False)]"
  by (simp add: run_cons listening_eq at_time_def on_source_def pause_click_def log_awaited_def
      logListeningSession_def Let_def native_pause_def log_unawaited_def resume_def
      log_settled_def log_resume_def pause_rest_def)

section \<open>Delivery and the handler that asked for it\<close>

text \<open>
  C2, as stated: delivery never holds its caller back, and the pause command reaches the
  audio element without waiting for the network. It fails on the pause button: play at 0,
  pause button at 10.2 s. The click posts the record and issues no command to the element;
  \<open>streamPlayer.pause()\<close> is issued when the log request has settled, here 4.8 s later.
\<close>

theorem pause_command_waits_for_delivery:
  "fst (run [(at_time 0, PlayClick ''http://x/stream.mp3''), (at_time 200, Playing),
       (at_time 10200, PauseClick)] init) =
     [HideError, SetSrc ''http://x/stream.mp3'', PlayCmd, ShowPauseBtn, UpdateStatus ''Playing'',
      Fetch (session_record ''http://x/stream.mp3'' 0 10200 ''pause'') False] \<and>
   fst (run [(at_time 0, PlayClick ''http://x/stream.mp3''), (at_time 200, Playing),
       (at_time 10200, PauseClick), (at_time 15000, LogSettled PauseBtn)] init) =
     [HideError, SetSrc ''http://x/stream.mp3'', PlayCmd, ShowPauseBtn, UpdateStatus ''Playing'',
      Fetch (session_record ''http://x/stream.mp3'' 0 10200 ''pause'') False,
      PauseCmd, ShowPlayBtn, UpdateStatus ''Paused'']"
  by (simp add: run_cons init_def at_time_def on_source_def play_click_def trim_url Let_def playing_def
      pause_click_def log_awaited_def logListeningSession_def resume_def log_settled_def
      log_resume_def pause_rest_def)

text \<open>
  C2, amended: for a tracked session of at least 100 ms, \<open>logListeningSession\<close> with
  \<open>sync\<close> set posts the record with \<open>keepalive\<close>, clears the session and returns; without
  \<open>sync\<close> it posts the record and stops at the request, the session still tracked. The pause
  and stop buttons await it: the click posts the record and leaves the rest of the handler
  pending, and the commands to the audio element are issued when the request has settled.
\<close>

theorem delivery_modes:
  assumes "listeningStartTime s = Some t0" and "currentStreamUrl s = Some u" and "u \<noteq> []"
    and "100 \<le> clock n - t0"
  shows "logListeningSession a True n s =
           ([Fetch (session_record u t0 (clock n) a) True], s\<lparr>listeningStartTime := None\<rparr>, False) \<and>
         logListeningSession a False n s =
           ([Fetch (session_record u t0 (clock n) a) False], s, True) \<and>
         step n PauseClick s =
           ([Fetch (session_record u t0 (clock n) ''pause'') False],
            s\<lparr>pauseTriggeredByButton := True, pending := pending s @ [AfterLog PauseBtn]\<rparr>) \<and>
         step n StopClick s =
           ([Fetch (session_record u t0 (clock n) ''stop'') False],
            s\<lparr>pending := pending s @ [AfterLog StopBtn]\<rparr>) \<and>
         fst (step n' (LogSettled PauseBtn) (snd (step n PauseClick s))) =
           [PauseCmd, ShowPlayBtn, UpdateStatus ''Paused''] \<and>
         fst (step n' (LogSettled StopBtn) (snd (step n StopClick s))) =
           [PauseCmd, SeekZero, ShowPlayBtn, UpdateStatus ''Stopped'', ResetTimeDisplay]"
  using assms
  by (simp add: log_active pause_click_active stop_click_active resume_def log_settled_def
      log_resume_def pause_rest_def stop_rest_def)

text \<open>The amended C2 on the session of \<open>listening\<close>, closed at 10.2 s.\<close>

theorem delivery_modes_witness:
  "logListeningSession ''stop'' True (at_time 10200) listening =
     ([Fetch (session_record ''http://x/stream.mp3'' 0 10200 ''stop'') True],
      listening\<lparr>listeningStartTime := None\<rparr>, False) \<and>
   step (at_time 10200) PauseClick listening =
     ([Fetch (session_record ''http://x/stream.mp3'' 0 10200 ''pause'') False],
      listening\<lparr>pauseTriggeredByButton := True, pending := [AfterLog PauseBtn]\<rparr>) \<and>
   fst (step (at_time 15000) (LogSettled PauseBtn) (snd (step (at_time 10200) PauseClick listening))) =
     [PauseCmd, ShowPlayBtn, UpdateStatus ''Paused'']"
proof -
  have h: "listeningStartTime listening = Some 0"
    "currentStreamUrl listening = Some ''http://x/stream.mp3''"
    "''http://x/stream.mp3'' \<noteq> []" "100 \<le> clock (at_time 10200) - 0"
    by (simp_all add: listening_eq at_time_def on_source_def)
  note th = delivery_modes [OF h, where a = "''stop''" and n' = "at_time 15000"]
  have c: "clock (at_time 10200) = 10200" "pending listening = []"
    by (simp_all add: at_time_def on_source_def listening_eq)
  from th have "logListeningSession ''stop'' True (at_time 10200) listening =
     ([Fetch (session_record ''http://x/stream.mp3'' 0 (clock (at_time 10200)) ''stop'') True],
      listening\<lparr>listeningStartTime := None\<rparr>, False)"
    by blast
  moreover from th have "step (at_time 10200) PauseClick listening =
     ([Fetch (session_record ''http://x/stream.mp3'' 0 (clock (at_time 10200)) ''pause'') False],
      listening\<lparr>pauseTriggeredByButton := True,
        pending := pending listening @ [AfterLog PauseBtn]\<rparr>)"
    by blast
  moreover from th have "fst (step (at_time 15000) (LogSettled PauseBtn)
      (snd (step (at_time 10200) PauseClick listening))) = [PauseCmd, ShowPlayBtn, UpdateStatus ''Paused'']"
    by blast
  ultimately show ?thesis by (simp only: c append_Nil)
qed

section \<open>Changing the source during a session\<close>




section \<open>When a session starts\<close>

text \<open>
  C4, as stated: the session starts at the element's \<open>playing\<close> event, so play at 0,
  \<open>playing\<close> at 200 ms and the pause button at 10.2 s post a record of about 10.0 s. It
  fails: the record posted starts at 0, the time of the click, and has 10.2 s.
\<close>

theorem session_starts_at_click_not_at_playing:
  "deliveries (fst (run [(at_time 0, PlayClick ''http://x/stream.mp3''), (at_time 200, Playing),
       (at_time 10200, PauseClick)] init)) =
     [(\<lparr>stream_url = ''http://x/stream.mp3'', start_timestamp = 0, end_timestamp = 10200,
        listening_time_seconds = 51 / 5, action_type = ''pause''\<rparr>, False)] \<and>
   (0::int) \<noteq> 200 \<and> (51 / 5 :: rat) \<noteq> 10"
  by (simp add: run_cons init_def at_time_def on_source_def play_click_def trim_url Let_def
      playing_def pause_click_def log_awaited_def logListeningSession_def)

text \<open>
  C4, amended: with no session tracked, a play click on a source starts the session at the
  time of the click; the \<open>playing\<close> event that follows leaves the start as it is; and the
  pause button, at least 100 ms after the click, posts one record, from the click to the
  pause, whenever the \<open>playing\<close> event came. The record names the source the element
  reported at the \<open>playing\<close> event (the typed one, had it reported none).
\<close>

theorem tracking_starts_at_click:
  assumes "listeningStartTime s = None" and "trim input = url" and "url \<noteq> []"
    and "100 \<le> clock n2 - clock n"
  shows "listeningStartTime (snd (step n (PlayClick input) s)) = Some (clock n) \<and>
         listeningStartTime (snd (run [(n, PlayClick input), (n1, Playing)] s)) = Some (clock n) \<and>
         deliveries (fst (run [(n, PlayClick input), (n1, Playing), (n2, PauseClick)] s)) =
           [(session_record (if player_src n1 = [] then url else player_src n1)
               (clock n) (clock n2) ''pause'', False)]"
proof -
  let ?s2 = "snd (run [(n, PlayClick input), (n1, Playing)] s)"
  let ?r = "if player_src n1 = [] then url else player_src n1"
  have s2: "listeningStartTime ?s2 = Some (clock n)" "currentStreamUrl ?s2 = Some ?r"
    using assms by (auto simp: run_cons play_click_def playing_def Let_def)
  have r: "?r \<noteq> []" using assms(3) by simp
  have quiet: "deliveries (fst (run [(n, PlayClick input), (n1, Playing)] s)) = []"
    using assms by (simp add: run_cons play_click_def playing_def Let_def)
  have run3: "run [(n, PlayClick input), (n1, Playing), (n2, PauseClick)] s =
      (fst (run [(n, PlayClick input), (n1, Playing)] s) @ fst (step n2 PauseClick ?s2),
       snd (step n2 PauseClick ?s2))"
    using run_append [of "[(n, PlayClick input), (n1, Playing)]" "[(n2, PauseClick)]" s]
    by (simp add: run_cons)
  from pause_click_active [OF s2 r, of n2] \<open>100 \<le> clock n2 - clock n\<close>
  have "fst (step n2 PauseClick ?s2) = [Fetch (session_record ?r (clock n) (clock n2) ''pause'') False]"
    by simp
  with quiet s2 assms show ?thesis
    by (simp only: run3 deliveries_append fst_conv deliveries.simps append_Nil simp_thms)
       (simp add: play_click_def Let_def)
qed

text \<open>The amended C4 on a fresh page: play at 0, \<open>playing\<close> at 200 ms, pause at 10.2 s.\<close>

theorem tracking_starts_at_click_witness:
  "listeningStartTime init = None \<and>
   listeningStartTime (snd (run [(at_time 0, PlayClick ''http://x/stream.mp3''),
       (at_time 200, Playing)] init)) = Some 0 \<and>
   deliveries (fst (run [(at_time 0, PlayClick ''http://x/stream.mp3''), (at_time 200, Playing),
       (at_time 10200, PauseClick)] init)) =
     [(session_record ''http://x/stream.mp3'' 0 10200 ''pause'', False)]"
proof -
  have i: "listeningStartTime init = None"
    by (simp add: init_def)
  have c: "clock (at_time 0) = 0" "clock (at_time 10200) = 10200"
    "player_src (at_time 200) = ''http://x/stream.mp3''"
    by (simp_all add: at_time_def on_source_def)
  from tracking_starts_at_click [where s = init and input = "''http://x/stream.mp3''"
      and url = "''http://x/stream.mp3''" and n = "at_time 0" and ?n1.0 = "at_time 200"
      and ?n2.0 = "at_time 10200"] trim_url i c
  show ?thesis by simp
qed

section \<open>The threshold\<close>

text \<open>
  C5, as stated: every close of a session posts a record if and only if the session lasted
  at least 0.1 s. It fails on the close by a rejected \<open>play()\<close> promise, which drops the
  tracked session whatever its length. Play at 0; while the stream still loads, play of
  another source at 4.4 s, whose load makes the element reject the first promise (no
  \<open>error\<close> and no \<open>pause\<close> event comes with that); the rejection is handled at 4.5 s.
  The session tracked from 0 is closed and nothing was posted.
\<close>

theorem rejected_play_drops_session_unlogged:
  "listeningStartTime (snd (run [(at_time 0, PlayClick ''http://x/stream.mp3''),
       (at_time 4400, PlayClick ''http://y/other.mp3'')] init)) = Some 0 \<and>
   deliveries (fst (run [(at_time 0, PlayClick ''http://x/stream.mp3''),
       (at_time 4400, PlayClick ''http://y/other.mp3''),
       (at_time 4500, PlayRejected (Some ''interrupted by a new load request''))] init)) = [] \<and>
   listeningStartTime (snd (run [(at_time 0, PlayClick ''http://x/stream.mp3''),
       (at_time 4400, PlayClick ''http://y/other.mp3''),
       (at_time 4500, PlayRejected (Some ''interrupted by a new load request''))] init)) = None"
  by (simp add: run_cons init_def at_time_def on_source_def play_click_def trim_def is_ws_def
      Let_def resume_def play_rejected_def showError_def)

text \<open>
  C5, amended: a session tracked from \<open>t0\<close> and closed at \<open>clock n\<close> by a handler that logs
  it (the pause and stop buttons, the element's \<open>ended\<close> and \<open>error\<close> events and its
  \<open>pause\<close> event when the button did not cause it, the page being hidden or unloaded) posts
  a record if and only if \<open>(clock n - t0) / 1000\<close> is at least \<open>0.1\<close>, and the record
  carries that start, that end and that quotient as its listening time. The same holds of
  any call of \<open>logListeningSession\<close>. A close by a rejected \<open>play()\<close> promise posts
  nothing.
\<close>

theorem threshold_filter:
  assumes "listeningStartTime s = Some t0" and "truthy (currentStreamUrl s)"
    and "e \<in> {PauseClick, StopClick, Ended, Error, BeforeUnload, VisibilityChange True} \<or>
         e = NativePause \<and> \<not> pauseTriggeredByButton s"
  shows "(deliveries (fst (logListeningSession a sync n s)) \<noteq> []) =
           ((1 / 10 :: rat) \<le> of_int (clock n - t0) / 1000) \<and>
         map (\<lambda>(d, k). (start_timestamp d, end_timestamp d, listening_time_seconds d))
           (deliveries (fst (step n e s))) =
         (if (1 / 10 :: rat) \<le> of_int (clock n - t0) / 1000
          then [(t0, clock n, of_int (clock n - t0) / 1000)] else []) \<and>
         (AfterPlay \<in> set (pending s) \<longrightarrow>
            deliveries (fst (step n (PlayRejected m) s)) = [] \<and>
            listeningStartTime (snd (step n (PlayRejected m) s)) = None)"
proof -
  have log: "\<And>a sync s'. listeningStartTime s' = Some t0 \<Longrightarrow>
      currentStreamUrl s' = currentStreamUrl s \<Longrightarrow>
     logListeningSession a sync n s' =
      (if (1 / 10 :: rat) \<le> of_int (clock n - t0) / 1000
       then ([Fetch (session_record (the (currentStreamUrl s)) t0 (clock n) a) sync],
             if sync then s'\<lparr>listeningStartTime := None\<rparr> else s', \<not> sync)
       else ([], s'\<lparr>listeningStartTime := None\<rparr>, False))"
    using assms(2) by (auto simp: logListeningSession_def Let_def)
  have direct: "(deliveries (fst (logListeningSession a sync n s)) \<noteq> []) =
           ((1 / 10 :: rat) \<le> of_int (clock n - t0) / 1000)"
    using assms(1) by (simp add: log)
  from assms(3) consider "e = PauseClick" | "e = StopClick" | "e = Ended" | "e = Error"
    | "e = BeforeUnload" | "e = VisibilityChange True"
    | "e = NativePause" "\<not> pauseTriggeredByButton s" by auto
  then have "map (\<lambda>(d, k). (start_timestamp d, end_timestamp d, listening_time_seconds d))
           (deliveries (fst (step n e s))) =
         (if (1 / 10 :: rat) \<le> of_int (clock n - t0) / 1000
          then [(t0, clock n, of_int (clock n - t0) / 1000)] else [])"
  proof cases
    case 1
    then show ?thesis using assms(1)
      by (simp add: pause_click_def log_awaited_def log pause_rest_def)
  next
    case 2
    then show ?thesis using assms(1)
      by (simp add: stop_click_def log_awaited_def log stop_rest_def)
  next
    case 3
    then show ?thesis using assms(1)
      by (simp add: ended_event_def log_awaited_def log ended_rest_def)
  next
    case 4
    then show ?thesis using assms(1)
      by (simp add: error_event_def log_awaited_def log error_rest_def showError_def)
  next
    case 5
    then show ?thesis using assms(1,2)
      by (simp add: before_unload_def log_unawaited_def log)
  next
    case 6
    then show ?thesis using assms(1,2)
      by (simp add: visibility_change_def log_unawaited_def log)
  next
    case 7
    then show ?thesis using assms(1)
      by (simp add: native_pause_def log_unawaited_def log)
  qed
  with direct play_rejected_discards [of s n m] show ?thesis by blast
qed

text \<open>The amended C5 on the session of \<open>listening\<close>: stopped after 50 ms it posts nothing, stopped after
  exactly 100 ms it posts a record of a tenth of a second.\<close>

theorem threshold_filter_witness:
  "listeningStartTime listening = Some 0 \<and> truthy (currentStreamUrl listening) \<and>
   deliveries (fst (step (at_time 50) StopClick listening)) = [] \<and>
   map (\<lambda>(d, k). (start_timestamp d, end_timestamp d, listening_time_seconds d))
     (deliveries (fst (step (at_time 100) StopClick listening))) = [(0, 100, 1 / 10)]"
proof -
  have h: "listeningStartTime listening = Some 0" "truthy (currentStreamUrl listening)"
    by (simp_all add: listening_eq)
  have e: "StopClick \<in> {PauseClick, StopClick, Ended, Error, BeforeUnload, VisibilityChange True} \<or>
         StopClick = NativePause \<and> \<not> pauseTriggeredByButton listening"
    by simp
  from threshold_filter [OF h e, of "''stop''" False "at_time 50"]
    threshold_filter [OF h e, of "''stop''" False "at_time 100"] h
  show ?thesis by (simp add: clock_at_time)
qed

section \<open>Leaving the page\<close>

text \<open>
  C6: when \<open>beforeunload\<close> arrives during a session on \<open>u\<close> tracked from \<open>t0\<close>, the handler
  posts the session's record with \<open>keepalive\<close> (the record exists when the session has
  reached the threshold of 100 ms) and closes the session in the same step: the state it
  leaves has no handler pending that was not pending before, so nothing waits for the
  request.
\<close>

theorem unload_delivers_durably:
  assumes "listeningStartTime s = Some t0" and "currentStreamUrl s = Some u" and "u \<noteq> []"
  shows "step n BeforeUnload s =
           (if 100 \<le> clock n - t0 then [Fetch (session_record u t0 (clock n) ''stop'') True] else [],
            s\<lparr>listeningStartTime := None\<rparr>)"
  using assms by (simp add: before_unload_def log_unawaited_def log_active)

text \<open>C6 on the session of \<open>listening\<close>, the page unloaded at 5 s.\<close>

theorem unload_delivers_durably_witness:
  "listeningStartTime listening = Some 0 \<and>
   step (at_time 5000) BeforeUnload listening =
     ([Fetch (session_record ''http://x/stream.mp3'' 0 5000 ''stop'') True],
      listening\<lparr>listeningStartTime := None\<rparr>)"
proof -
  have h: "listeningStartTime listening = Some 0"
    "currentStreamUrl listening = Some ''http://x/stream.mp3''" "''http://x/stream.mp3'' \<noteq> []"
    by (simp_all add: listening_eq)
  from unload_delivers_durably [OF h, of "at_time 5000"] h
  show ?thesis by (simp add: clock_at_time)
qed

section \<open>Play during a session\<close>

text \<open>
  C7: during a session on \<open>u\<close> tracked from \<open>t0\<close>, a play click on the same source leaves
  the start and the source of the session as they are and posts nothing; when \<open>u\<close> is also
  the source loaded in the element, the click only hides the error line and calls
  \<open>play()\<close>, and changes no variable of the player. And the only events that end the
  session or post a record are the pause and stop buttons, the element's \<open>pause\<close>, \<open>ended\<close>
  and \<open>error\<close> events, the page being hidden or unloaded, a rejected \<open>play()\<close>, and the
  end of a log request: no play click is among them.
\<close>

theorem same_source_play_is_noop:
  assumes "listeningStartTime s = Some t0" and "currentStreamUrl s = Some u" and "u \<noteq> []"
    and "trim input = u"
  shows "listeningStartTime (snd (step n (PlayClick input) s)) = Some t0 \<and>
         currentStreamUrl (snd (step n (PlayClick input) s)) = Some u \<and>
         deliveries (fst (step n (PlayClick input) s)) = [] \<and>
         (currentPlayingUrl s = Some u \<longrightarrow>
            fst (step n (PlayClick input) s) = [HideError, PlayCmd] \<and>
            (snd (step n (PlayClick input) s))\<lparr>pending := pending s\<rparr> = s) \<and>
         (\<forall>e m. listeningStartTime (snd (step m e s)) \<noteq> Some t0 \<or>
                 deliveries (fst (step m e s)) \<noteq> [] \<longrightarrow>
            e \<in> {PauseClick, StopClick, NativePause, Ended, Error, BeforeUnload,
                  VisibilityChange True} \<union> range PlayRejected \<union> range LogSettled)"
proof -
  have play: "listeningStartTime (snd (step n (PlayClick input) s)) = Some t0 \<and>
         currentStreamUrl (snd (step n (PlayClick input) s)) = Some u \<and>
         deliveries (fst (step n (PlayClick input) s)) = [] \<and>
         (currentPlayingUrl s = Some u \<longrightarrow>
            fst (step n (PlayClick input) s) = [HideError, PlayCmd] \<and>
            (snd (step n (PlayClick input) s))\<lparr>pending := pending s\<rparr> = s)"
    using assms by (simp add: play_click_def Let_def)
  have others: "e \<in> {PauseClick, StopClick, NativePause, Ended, Error, BeforeUnload,
                  VisibilityChange True} \<union> range PlayRejected \<union> range LogSettled"
    if "listeningStartTime (snd (step m e s)) \<noteq> Some t0 \<or> deliveries (fst (step m e s)) \<noteq> []"
    for e m
    using that assms(1)
    by (cases e)
       (auto simp: play_click_def Let_def showError_def resume_def play_resolved_def playing_def
          visibility_change_def handleStreamCheck_def check_settled_def split: if_splits)
  from play others show ?thesis by blast
qed

text \<open>C7 on the session of \<open>listening\<close>: play clicked again at 3 s on the same stream.\<close>

theorem same_source_play_is_noop_witness:
  "listeningStartTime listening = Some 0 \<and>
   trim ''http://x/stream.mp3'' = ''http://x/stream.mp3'' \<and>
   fst (step (at_time 3000) (PlayClick ''http://x/stream.mp3'') listening) = [HideError, PlayCmd] \<and>
   (snd (step (at_time 3000) (PlayClick ''http://x/stream.mp3'') listening))
      \<lparr>pending := pending listening\<rparr> = listening \<and>
   listeningStartTime (snd (step (at_time 3000) (PlayClick ''http://x/stream.mp3'') listening)) =
     Some 0"
proof -
  have h: "listeningStartTime listening = Some 0"
    "currentStreamUrl listening = Some ''http://x/stream.mp3''" "''http://x/stream.mp3'' \<noteq> []"
    "trim ''http://x/stream.mp3'' = ''http://x/stream.mp3''"
    by (simp_all add: listening_eq trim_url)
  have p: "currentPlayingUrl listening = Some ''http://x/stream.mp3''"
    by (simp add: listening_eq)
  from same_source_play_is_noop [OF h, of "at_time 3000"] h p
  show ?thesis by blast
qed

section \<open>Play without a source\<close>

text \<open>
  C8: a play click while the URL input is empty or holds only white space shows the error
  line and does nothing else: no command goes to the audio element, nothing is posted, and
  every variable of the player, the tracked session among them, is as before.
\<close>

theorem blank_source_rejected:
  assumes "\<forall>c\<in>set input. is_ws c"
  shows "step n (PlayClick input) s =
           ([ShowError ''Please enter a stream URL first'', UpdateStatus ''Error''], s)"
  using trim_blank [OF assms] by (simp add: play_click_def showError_def)

text \<open>C8 on an input of three spaces during a session, and on an empty input on a fresh
  page.\<close>

theorem blank_source_rejected_witness:
  "step (at_time 7) (PlayClick ''   '') listening =
     ([ShowError ''Please enter a stream URL first'', UpdateStatus ''Error''], listening) \<and>
   step (at_time 7) (PlayClick []) init =
     ([ShowError ''Please enter a stream URL first'', UpdateStatus ''Error''], init)"
proof -
  have a: "\<forall>c\<in>set ''   ''. is_ws c" and b: "\<forall>c\<in>set []. is_ws c"
    by (simp_all add: is_ws_def)
  from blank_source_rejected [OF a, of "at_time 7" listening]
    blank_source_rejected [OF b, of "at_time 7" init]
  show ?thesis by blast
qed

section \<open>Actions that are not playback\<close>

text \<open>
  C9: submitting a stream check, the end of its request, the volume slider and the mute
  button change no variable of the player (only the list of pending handlers grows or
  shrinks by the check's own), so a tracked session keeps its source and its start; they
  post no session record, and they send the audio element no pause, no seek and no new
  source. The one command a stream check can send is \<open>play()\<close>, at the end of its request,
  when the element was playing at the submit and is found paused; the \<open>playing\<close> event
  this may bring leaves the start of a tracked session as it is.
\<close>

theorem unrelated_actions_leave_player:
  assumes "e \<in> {CheckSubmit input tests duration, CheckSettled w c v b, VolumeInput x, MuteClick}"
  shows "(snd (step n e s))\<lparr>pending := pending s\<rparr> = s \<and>
         listeningStartTime (snd (step n e s)) = listeningStartTime s \<and>
         currentStreamUrl (snd (step n e s)) = currentStreamUrl s \<and>
         deliveries (fst (step n e s)) = [] \<and>
         PauseCmd \<notin> set (fst (step n e s)) \<and> SeekZero \<notin> set (fst (step n e s)) \<and>
         (\<forall>u. SetSrc u \<notin> set (fst (step n e s))) \<and>
         (PlayCmd \<in> set (fst (step n e s)) \<longrightarrow> e = CheckSettled True c v b \<and> player_paused n) \<and>
         (\<forall>t0 n'. listeningStartTime s = Some t0 \<longrightarrow>
            listeningStartTime (snd (step n' Playing (snd (step n e s)))) = Some t0)"
  using assms
  by (auto simp: handleStreamCheck_def check_settled_def resume_def playing_def Let_def
      split: if_splits)

text \<open>C9 on the session of \<open>listening\<close>: a connectivity check submitted at 4 s.\<close>

theorem unrelated_actions_leave_player_witness:
  "(snd (step (at_time 4000) (CheckSubmit ''http://x/stream.mp3'' [''connectivity''] None)
       listening))\<lparr>pending := pending listening\<rparr> = listening \<and>
   listeningStartTime (snd (step (at_time 4000)
       (CheckSubmit ''http://x/stream.mp3'' [''connectivity''] None) listening)) = Some 0 \<and>
   deliveries (fst (step (at_time 4000)
       (CheckSubmit ''http://x/stream.mp3'' [''connectivity''] None) listening)) = []"
proof -
  have e: "CheckSubmit ''http://x/stream.mp3'' [''connectivity''] None \<in>
      {CheckSubmit ''http://x/stream.mp3'' [''connectivity''] None, CheckSettled True [] 0 False,
       VolumeInput 0, MuteClick}"
    by simp
  have h: "listeningStartTime listening = Some 0" by (simp add: listening_eq)
  from unrelated_actions_leave_player [OF e, where n = "at_time 4000" and s = listening] h
  show ?thesis by simp
qed

section \<open>A rejected play\<close>

text \<open>
  C10, as stated: when the \<open>play()\<close> promise is rejected, no record is posted for the
  attempt. It fails when the load fails: the element fires its \<open>error\<close> event before the
  promise is rejected, and the \<open>error\<close> listener finds the tracking the click started and
  logs it. Play at 0, \<open>error\<close> at 0.9 s, the rejection after it: one record of 0.9 s with
  action \<open>stop\<close> is posted for the attempt.
\<close>

theorem failed_load_is_logged_by_error_event:
  "deliveries (fst (run [(at_time 0, PlayClick ''http://x/stream.mp3''),
       ((at_time 900)\<lparr>player_error := Some MEDIA_ERR_SRC_NOT_SUPPORTED\<rparr>, Error),
       (at_time 900, PlayRejected (Some ''no supported source''))] init)) =
     [(session_record ''http://x/stream.mp3'' 0 900 ''stop'', False)] \<and>
   listeningStartTime (snd (run [(at_time 0, PlayClick ''http://x/stream.mp3''),
       ((at_time 900)\<lparr>player_error := Some MEDIA_ERR_SRC_NOT_SUPPORTED\<rparr>, Error),
       (at_time 900, PlayRejected (Some ''no supported source''))] init)) = None"
  by (simp add: run_cons init_def at_time_def on_source_def play_click_def trim_url Let_def
      error_event_def log_awaited_def logListeningSession_def resume_def play_rejected_def
      showError_def)

text \<open>
  C10, amended: the handler of a rejected \<open>play()\<close> promise posts nothing itself and leaves
  no session tracked, whatever the state it finds; a later play click starts a session at
  its own time on its own source, which the resolved promise and the \<open>playing\<close> event
  leave in place. When the element's \<open>error\<close> event comes between the click and the
  rejection, the attempt is posted by that event's handler if at least 100 ms have passed
  since the click, and not otherwise.
\<close>

theorem play_rejection_clears_tracking:
  assumes "AfterPlay \<in> set (pending s)" and "trim input' \<noteq> []"
  shows "deliveries (fst (step n (PlayRejected m) s)) = [] \<and>
         listeningStartTime (snd (step n (PlayRejected m) s)) = None \<and>
         listeningStartTime (snd (run [(n, PlayRejected m), (n2, PlayClick input')] s)) =
           Some (clock n2) \<and>
         currentStreamUrl (snd (run [(n, PlayRejected m), (n2, PlayClick input')] s)) =
           Some (trim input') \<and>
         listeningStartTime
           (snd (run [(n, PlayRejected m), (n2, PlayClick input'), (n3, PlayResolved),
                      (n4, Playing)] s)) = Some (clock n2) \<and>
         (\<forall>s0 n0 n1 input. listeningStartTime s0 = None \<and> trim input \<noteq> [] \<and> play_promise n0 \<longrightarrow>
            deliveries (fst (run [(n0, PlayClick input), (n1, Error), (n, PlayRejected m)] s0)) =
              (if 100 \<le> clock n1 - clock n0
               then [(session_record (trim input) (clock n0) (clock n1) ''stop'', False)]
               else []) \<and>
            listeningStartTime
              (snd (run [(n0, PlayClick input), (n1, Error), (n, PlayRejected m)] s0)) = None)"
proof -
  let ?s2 = "snd (step n (PlayRejected m) s)"
  let ?s3 = "snd (step n2 (PlayClick input') ?s2)"
  let ?s4 = "snd (step n3 PlayResolved ?s3)"
  note idle = play_rejected_discards [OF assms(1), of n m]
  note fresh = play_click_starts [OF idle(1) assms(2), of n2]
  have kept: "listeningStartTime ?s4 = Some (clock n2)"
    by (simp only: play_resolved_keeps fresh)
  from idle fresh playing_keeps [OF kept, of n4]
  have first: "deliveries (fst (step n (PlayRejected m) s)) = [] \<and>
         listeningStartTime (snd (step n (PlayRejected m) s)) = None \<and>
         listeningStartTime (snd (run [(n, PlayRejected m), (n2, PlayClick input')] s)) =
           Some (clock n2) \<and>
         currentStreamUrl (snd (run [(n, PlayRejected m), (n2, PlayClick input')] s)) =
           Some (trim input') \<and>
         listeningStartTime
           (snd (run [(n, PlayRejected m), (n2, PlayClick input'), (n3, PlayResolved),
                      (n4, Playing)] s)) = Some (clock n2)"
    by (simp only: run_cons run.simps(1) fst_conv snd_conv simp_thms)
  have second: "deliveries (fst (run [(n0, PlayClick input), (n1, Error), (n, PlayRejected m)] s0)) =
              (if 100 \<le> clock n1 - clock n0
               then [(session_record (trim input) (clock n0) (clock n1) ''stop'', False)]
               else []) \<and>
            listeningStartTime
              (snd (run [(n0, PlayClick input), (n1, Error), (n, PlayRejected m)] s0)) = None"
    if h: "listeningStartTime s0 = None" "trim input \<noteq> []" "play_promise n0"
    for s0 n0 n1 input
  proof -
    let ?t1 = "snd (step n0 (PlayClick input) s0)"
    let ?t2 = "snd (step n1 Error ?t1)"
    note started = play_click_starts [OF h(1,2), of n0]
    note waiting = play_click_pending [OF h(2,3), of s0]
    note logged = error_event_active [OF started h(2), of n1]
    note dropped = play_rejected_discards [OF logged(2) [OF waiting], of n m]
    from play_click_quiet [of n0 input s0] logged(1) dropped show ?thesis
      by (simp only: run_cons run.simps(1) fst_conv snd_conv deliveries_append append_Nil2
          append_Nil simp_thms)
  qed
  from first second show ?thesis by blast
qed

text \<open>The amended C10 on \<open>loading\<close>: the promise rejected at 0.9 s, play again at 2 s.\<close>

theorem play_rejection_clears_tracking_witness:
  "AfterPlay \<in> set (pending loading) \<and>
   listeningStartTime loading = Some 0 \<and>
   deliveries (fst (step (at_time 900) (PlayRejected (Some ''interrupted'')) loading)) = [] \<and>
   listeningStartTime (snd (step (at_time 900) (PlayRejected (Some ''interrupted'')) loading)) =
     None \<and>
   listeningStartTime (snd (run [(at_time 900, PlayRejected (Some ''interrupted'')),
       (at_time 2000, PlayClick ''http://x/stream.mp3'')] loading)) = Some 2000"
proof -
  have h: "AfterPlay \<in> set (pending loading)" "trim ''http://x/stream.mp3'' \<noteq> []"
    by (simp_all add: loading_eq trim_url)
  have l: "listeningStartTime loading = Some 0"
    by (simp add: loading_eq)
  note th = play_rejection_clears_tracking [OF h, where n = "at_time 900"
      and m = "Some ''interrupted''" and ?n2.0 = "at_time 2000"]
  from th have "deliveries (fst (step (at_time 900) (PlayRejected (Some ''interrupted'')) loading)) = []"
    by blast
  moreover from th
  have "listeningStartTime (snd (step (at_time 900) (PlayRejected (Some ''interrupted'')) loading)) = None"
    by blast
  moreover from th
  have "listeningStartTime (snd (run [(at_time 900, PlayRejected (Some ''interrupted'')),
       (at_time 2000, PlayClick ''http://x/stream.mp3'')] loading)) = Some (clock (at_time 2000))"
    by blast
  ultimately show ?thesis using h(1) l by (simp only: clock_at_time simp_thms)
qed

end
